theory Spec2Isabelle
  imports Main "HOL-Library.Word"
begin

unbundle bit_operations_syntax

section \<open>Python values\<close>

text \<open>
  A Python \<open>str\<close> is a sequence of Unicode code points; it is modelled as a list of
  naturals, one per code point, so that \<open>len\<close>, slicing and the character classes count
  what Python counts. \<open>ustr\<close> writes a literal. Upload file names are the one exception:
  \<open>str.lower\<close> is modelled on them as a character table, which is exact on the code
  points 0 to 255, so a file name is an Isabelle \<open>string\<close> whose characters are these
  code points. \<open>bytes\<close> is a list of 8-bit words.
\<close>

type_synonym pystr = "nat list"

type_synonym bytes = "8 word list"

definition ustr :: "string \<Rightarrow> pystr" where
  "ustr s = map of_char s"

text \<open>\<open>Py_UNICODE_ISSPACE\<close>: the test behind \<open>str.strip()\<close> and the pattern class \<open>\s\<close>.\<close>

definition isspace :: "nat \<Rightarrow> bool" where
  "isspace c \<longleftrightarrow>
     (0x09 \<le> c \<and> c \<le> 0x0D) \<or> (0x1C \<le> c \<and> c \<le> 0x20) \<or> c = 0x85 \<or> c = 0xA0 \<or>
     c = 0x1680 \<or> (0x2000 \<le> c \<and> c \<le> 0x200A) \<or> c = 0x2028 \<or> c = 0x2029 \<or>
     c = 0x202F \<or> c = 0x205F \<or> c = 0x3000"

definition str_strip :: "pystr \<Rightarrow> pystr" where
  "str_strip s = rev (dropWhile isspace (rev (dropWhile isspace s)))"

text \<open>\<open>str(n)\<close> for a non-negative integer: its decimal digits.\<close>

fun str_nat :: "nat \<Rightarrow> pystr" where
  "str_nat n = (if n < 10 then [48 + n] else str_nat (n div 10) @ [48 + n mod 10])"

text \<open>
  \<open>str.lower()\<close> on the code points 0 to 255: the letters A to Z and the capital
  letters of Latin-1 (0xC0 to 0xDE without the multiplication sign 0xD7) move up by 32,
  every other character stays.
\<close>

definition char_lower :: "char \<Rightarrow> char" where
  "char_lower c =
     (let n = (of_char c :: nat) in
      if (65 \<le> n \<and> n \<le> 90) \<or> (192 \<le> n \<and> n \<le> 222 \<and> n \<noteq> 215)
      then char_of (n + 32) else c)"

definition str_lower :: "string \<Rightarrow> string" where
  "str_lower s = map char_lower s"

text \<open>\<open>s.split(sep)\<close> for a one-character separator: never an empty list.\<close>

fun str_split :: "char \<Rightarrow> string \<Rightarrow> string list" where
  "str_split sep [] = [[]]"
| "str_split sep (c # cs) =
     (if c = sep then [] # str_split sep cs
      else (c # hd (str_split sep cs)) # tl (str_split sep cs))"

section \<open>Responses and errors\<close>

text \<open>\<open>HTTPException(status_code, detail)\<close>, raised by every handler on failure.\<close>

datatype http_exception = HTTPException (status_code: nat) (detail: pystr)

record pdf_meta =
  num_pages :: nat
  pdf_metadata :: "(pystr \<times> pystr) list"

record pptx_meta =
  num_slides :: nat
  slide_width :: int
  slide_height :: int
  pptx_metadata :: "(pystr \<times> pystr) list"

datatype metadata = PdfMetadata pdf_meta | PptxMetadata pptx_meta

record DocumentResponse =
  success :: bool
  filename :: string
  file_type :: pystr
  text_content :: pystr
  metadata :: metadata
  extracted_at :: pystr
  file_hash :: pystr

section \<open>SHA-256\<close>

text \<open>
  \<open>hashlib.sha256\<close> is the hash function of FIPS 180-4: the message is padded with the
  byte 0x80, zero bytes and its length in bits as a 64-bit big-endian number up to a
  multiple of 64 bytes, and each 64-byte block is compressed into eight 32-bit words.
  \<open>hexdigest\<close> writes each byte of the digest as two lowercase hexadecimal digits.
\<close>

type_synonym u32 = "32 word"

text \<open>
  The standard defines its constants by arithmetic: the round constants are the first 32
  bits of the fractional parts of the cube roots of the first 64 primes, the initial hash
  value those of the square roots of the first 8 primes. \<open>iroot k n i r\<close> is the integer
  \<open>k\<close>-th root of \<open>n\<close>, built bit by bit from bit \<open>i\<close> downwards.
\<close>

fun iroot :: "nat \<Rightarrow> nat \<Rightarrow> nat \<Rightarrow> nat \<Rightarrow> nat" where
  "iroot k n 0 r = r"
| "iroot k n (Suc i) r = iroot k n i (if (r + 2 ^ i) ^ k \<le> n then r + 2 ^ i else r)"

definition first_primes :: "nat list" where
  "first_primes = filter (\<lambda>p. \<forall>d \<in> set [2..<p]. p mod d \<noteq> 0) [2..<312]"

definition frac_root_bits :: "nat \<Rightarrow> nat \<Rightarrow> u32" where
  "frac_root_bits k p = of_nat (iroot k (p * 2 ^ (32 * k)) 40 0)"

definition sha256_k :: "u32 list" where
  "sha256_k = map (frac_root_bits 3) first_primes"

definition sha256_h0 :: "u32 list" where
  "sha256_h0 = map (frac_root_bits 2) (take 8 first_primes)"

definition rotr :: "nat \<Rightarrow> u32 \<Rightarrow> u32" where
  "rotr n x = drop_bit n x OR push_bit (32 - n) x"

definition ch :: "u32 \<Rightarrow> u32 \<Rightarrow> u32 \<Rightarrow> u32" where
  "ch x y z = (x AND y) XOR (NOT x AND z)"

definition maj :: "u32 \<Rightarrow> u32 \<Rightarrow> u32 \<Rightarrow> u32" where
  "maj x y z = (x AND y) XOR (x AND z) XOR (y AND z)"

definition bsig0 :: "u32 \<Rightarrow> u32" where
  "bsig0 x = rotr 2 x XOR rotr 13 x XOR rotr 22 x"

definition bsig1 :: "u32 \<Rightarrow> u32" where
  "bsig1 x = rotr 6 x XOR rotr 11 x XOR rotr 25 x"

definition ssig0 :: "u32 \<Rightarrow> u32" where
  "ssig0 x = rotr 7 x XOR rotr 18 x XOR drop_bit 3 x"

definition ssig1 :: "u32 \<Rightarrow> u32" where
  "ssig1 x = rotr 17 x XOR rotr 19 x XOR drop_bit 10 x"

definition sha256_pad :: "bytes \<Rightarrow> bytes" where
  "sha256_pad m =
     m @ [0x80] @ replicate ((119 - length m mod 64) mod 64) 0 @
     map (\<lambda>i. ucast (drop_bit (8 * (7 - i)) (of_nat (8 * length m) :: 64 word))) [0..<8]"

fun be32 :: "bytes \<Rightarrow> u32" where
  "be32 (a # b # c # d # _) =
     push_bit 24 (ucast a) OR push_bit 16 (ucast b) OR push_bit 8 (ucast c) OR ucast d"
| "be32 _ = 0"

definition block_words :: "bytes \<Rightarrow> u32 list" where
  "block_words blk = map (\<lambda>i. be32 (drop (4 * i) blk)) [0..<16]"

fun schedule :: "nat \<Rightarrow> u32 list \<Rightarrow> u32 list" where
  "schedule 0 w = w"
| "schedule (Suc n) w =
     (let t = length w in
      schedule n (w @ [ssig1 (w ! (t - 2)) + w ! (t - 7) + ssig0 (w ! (t - 15)) + w ! (t - 16)]))"

fun sha256_round :: "u32 list \<Rightarrow> u32 \<times> u32 \<Rightarrow> u32 list" where
  "sha256_round [a, b, c, d, e, f, g, h] (k, w) =
     (let t1 = h + bsig1 e + ch e f g + k + w;
          t2 = bsig0 a + maj a b c
      in [t1 + t2, a, b, c, d + t1, e, f, g])"
| "sha256_round s _ = s"

definition compress :: "u32 list \<Rightarrow> bytes \<Rightarrow> u32 list" where
  "compress hs blk =
     map2 (+) hs (foldl sha256_round hs (zip sha256_k (schedule 48 (block_words blk))))"

definition sha256 :: "bytes \<Rightarrow> bytes" where
  "sha256 m =
     (let p = sha256_pad m;
          hs = foldl (\<lambda>h i. compress h (take 64 (drop (64 * i) p))) sha256_h0 [0..<length p div 64]
      in concat (map (\<lambda>w. map (\<lambda>i. ucast (drop_bit (8 * (3 - i)) w)) [0..<4]) hs))"

definition hexchar :: "nat \<Rightarrow> nat" where
  "hexchar n = (if n < 10 then 48 + n else 87 + n)"

definition hexdigest :: "bytes \<Rightarrow> pystr" where
  "hexdigest bs = concat (map (\<lambda>b. [hexchar (unat b div 16), hexchar (unat b mod 16)]) bs)"

text \<open>\<open>calculate_file_hash\<close>: \<open>hashlib.sha256(content).hexdigest()\<close>.\<close>

definition calculate_file_hash :: "bytes \<Rightarrow> pystr" where
  "calculate_file_hash content = hexdigest (sha256 content)"

section \<open>The document libraries\<close>

text \<open>
  \<open>PyPDF2.PdfReader\<close> and \<open>pptx.Presentation\<close> are libraries outside the repository.
  The extractors take them as parameters: a function from the uploaded bytes to either
  the text of the exception the library raises (\<open>Inl\<close>) or the parsed document
  (\<open>Inr\<close>). A parsed PDF is its pages, each being what \<open>page.extract_text()\<close> does
  (the exception text or the page's text), and its document information dictionary
  (\<open>None\<close> when absent). A parsed presentation is its slides, each the list of its
  shapes, a shape being its \<open>text\<close> attribute when it has one.
\<close>

type_synonym pdf_page = "pystr + pystr"

record pdf_reader =
  pages :: "pdf_page list"
  pdf_info :: "(pystr \<times> pystr) list option"

type_synonym shape = "pystr option"

record core_properties =
  cp_title :: "pystr option"
  cp_author :: "pystr option"
  cp_subject :: "pystr option"
  cp_keywords :: "pystr option"
  cp_comments :: "pystr option"
  cp_category :: "pystr option"
  cp_created :: "pystr option"
  cp_modified :: "pystr option"
  cp_last_modified_by :: "pystr option"

record presentation =
  slides :: "shape list list"
  pres_slide_width :: int
  pres_slide_height :: int
  pres_core_properties :: core_properties

text \<open>\<open>d.get(k, default)\<close> and \<open>x or ""\<close>.\<close>

definition dict_get :: "(pystr \<times> pystr) list \<Rightarrow> pystr \<Rightarrow> pystr \<Rightarrow> pystr" where
  "dict_get d k dflt = (case map_of d k of None \<Rightarrow> dflt | Some v \<Rightarrow> v)"

definition or_empty :: "pystr option \<Rightarrow> pystr" where
  "or_empty x = (case x of None \<Rightarrow> [] | Some s \<Rightarrow> s)"

section \<open>The PDF extractor\<close>

text \<open>
  The loop of \<open>extract_pdf\<close> over \<open>enumerate(pdf_reader.pages)\<close>: \<open>n\<close> is
  \<open>page_num\<close>, \<open>acc\<close> is \<open>text_content\<close>. The separator is written in the source
  with the letter U+00E1.
\<close>

definition page_separator :: "nat \<Rightarrow> pystr" where
  "page_separator n =
     [10] @ ustr (''--- P'' @ [CHR 0xE1] @ ''gina '') @ str_nat (n + 1) @ ustr '' ---'' @ [10]"

fun pdf_pages_text :: "nat \<Rightarrow> pdf_page list \<Rightarrow> pystr \<Rightarrow> pystr + pystr" where
  "pdf_pages_text n [] acc = Inr acc"
| "pdf_pages_text n (page # rest) acc =
     (case page of
        Inl e \<Rightarrow> Inl e
      | Inr text \<Rightarrow> pdf_pages_text (n + 1) rest (acc @ page_separator n @ text))"

definition pdf_metadata_of :: "(pystr \<times> pystr) list option \<Rightarrow> (pystr \<times> pystr) list" where
  "pdf_metadata_of info =
     (case info of
        None \<Rightarrow> []
      | Some d \<Rightarrow>
          if d = [] then []
          else [(ustr ''title'', dict_get d (ustr ''/Title'') []),
                (ustr ''author'', dict_get d (ustr ''/Author'') []),
                (ustr ''subject'', dict_get d (ustr ''/Subject'') []),
                (ustr ''creator'', dict_get d (ustr ''/Creator'') []),
                (ustr ''producer'', dict_get d (ustr ''/Producer'') []),
                (ustr ''creation_date'', dict_get d (ustr ''/CreationDate'') []),
                (ustr ''modification_date'', dict_get d (ustr ''/ModDate'') [])])"

definition extract_pdf ::
  "(bytes \<Rightarrow> pystr + pdf_reader) \<Rightarrow> pystr \<Rightarrow> bytes \<Rightarrow> string \<Rightarrow> http_exception + DocumentResponse"
where
  "extract_pdf PdfReader utcnow file_content fname =
     (case PdfReader file_content of
        Inl e \<Rightarrow> Inl (HTTPException 400 (ustr ''Erro ao processar PDF: '' @ e))
      | Inr rd \<Rightarrow>
          (case pdf_pages_text 0 (pages rd) [] of
             Inl e \<Rightarrow> Inl (HTTPException 400 (ustr ''Erro ao processar PDF: '' @ e))
           | Inr txt \<Rightarrow>
               Inr \<lparr>success = True, filename = fname, file_type = ustr ''pdf'',
                    text_content = str_strip txt,
                    metadata = PdfMetadata
                      \<lparr>num_pages = length (pages rd), pdf_metadata = pdf_metadata_of (pdf_info rd)\<rparr>,
                    extracted_at = utcnow,
                    file_hash = calculate_file_hash file_content\<rparr>))"

section \<open>The slide-deck extractor\<close>

fun shapes_text :: "shape list \<Rightarrow> pystr \<Rightarrow> pystr" where
  "shapes_text [] slide_text = slide_text"
| "shapes_text (sh # rest) slide_text =
     (case sh of
        None \<Rightarrow> shapes_text rest slide_text
      | Some t \<Rightarrow>
          if t \<noteq> [] then shapes_text rest (slide_text @ t @ [10])
          else shapes_text rest slide_text)"

definition slide_separator :: "nat \<Rightarrow> pystr" where
  "slide_separator n = [10] @ ustr ''--- Slide '' @ str_nat n @ ustr '' ---'' @ [10]"

text \<open>The loop over \<open>enumerate(presentation.slides, 1)\<close>, with \<open>text_content\<close> and \<open>slide_count\<close>.\<close>

fun slides_text :: "nat \<Rightarrow> shape list list \<Rightarrow> pystr \<times> nat \<Rightarrow> pystr \<times> nat" where
  "slides_text n [] (acc, slide_count) = (acc, slide_count)"
| "slides_text n (slide # rest) (acc, slide_count) =
     slides_text (n + 1) rest (acc @ shapes_text slide (slide_separator n), slide_count + 1)"

definition pptx_metadata_of :: "core_properties \<Rightarrow> (pystr \<times> pystr) list" where
  "pptx_metadata_of cp =
     [(ustr ''title'', or_empty (cp_title cp)),
      (ustr ''author'', or_empty (cp_author cp)),
      (ustr ''subject'', or_empty (cp_subject cp)),
      (ustr ''keywords'', or_empty (cp_keywords cp)),
      (ustr ''comments'', or_empty (cp_comments cp)),
      (ustr ''category'', or_empty (cp_category cp)),
      (ustr ''created'', or_empty (cp_created cp)),
      (ustr ''modified'', or_empty (cp_modified cp)),
      (ustr ''last_modified_by'', or_empty (cp_last_modified_by cp))]"

definition extract_pptx ::
  "(bytes \<Rightarrow> pystr + presentation) \<Rightarrow> pystr \<Rightarrow> bytes \<Rightarrow> string \<Rightarrow> http_exception + DocumentResponse"
where
  "extract_pptx Presentation utcnow file_content fname =
     (case Presentation file_content of
        Inl e \<Rightarrow> Inl (HTTPException 400 (ustr ''Erro ao processar PPTX: '' @ e))
      | Inr p \<Rightarrow>
          (case slides_text 1 (slides p) ([], 0) of
             (txt, slide_count) \<Rightarrow>
               Inr \<lparr>success = True, filename = fname, file_type = ustr ''pptx'',
                    text_content = str_strip txt,
                    metadata = PptxMetadata
                      \<lparr>num_slides = slide_count, slide_width = pres_slide_width p,
                       slide_height = pres_slide_height p,
                       pptx_metadata = pptx_metadata_of (pres_core_properties p)\<rparr>,
                    extracted_at = utcnow,
                    file_hash = calculate_file_hash file_content\<rparr>))"

section \<open>The extract route\<close>

definition unsupported_type :: http_exception where
  "unsupported_type =
     HTTPException 400 (ustr (''Tipo de arquivo n'' @ [CHR 0xE3] @ ''o suportado. Use PDF ou PPTX.''))"

definition empty_file :: http_exception where
  "empty_file = HTTPException 400 (ustr ''Arquivo vazio'')"

text \<open>
  \<open>extract_document\<close>: the extension test, the test for an empty upload, then the
  dispatch. The source ends with \<open>elif file_extension == 'pptx'\<close> and no \<open>else\<close>;
  falling through would return \<open>None\<close>, which the declared response model refuses,
  and the first test rules it out.
\<close>

definition extract_document ::
  "(bytes \<Rightarrow> pystr + pdf_reader) \<Rightarrow> (bytes \<Rightarrow> pystr + presentation) \<Rightarrow> pystr \<Rightarrow>
   string \<Rightarrow> bytes \<Rightarrow> http_exception + DocumentResponse"
where
  "extract_document PdfReader Presentation utcnow fname file_content =
     (let file_extension = last (str_split CHR ''.'' (str_lower fname)) in
      if file_extension \<notin> set [''pdf'', ''pptx''] then Inl unsupported_type
      else if length file_content = 0 then Inl empty_file
      else if file_extension = ''pdf'' then extract_pdf PdfReader utcnow file_content fname
      else if file_extension = ''pptx'' then extract_pptx Presentation utcnow file_content fname
      else Inl (HTTPException 500 (ustr ''Internal Server Error'')))"

section \<open>JSON values\<close>

text \<open>
  What \<open>json.loads\<close> returns: \<open>None\<close>, a \<open>bool\<close>, an \<open>int\<close> (unbounded), a \<open>float\<close>,
  a \<open>str\<close>, a \<open>list\<close> or a \<open>dict\<close> with string keys. A float is kept as the text of
  its literal: no claim depends on its value. A \<open>dict\<close> is the list of its items in
  insertion order, with distinct keys.
\<close>

datatype json =
    JNull
  | JBool bool
  | JInt int
  | JFloat pystr
  | JString pystr
  | JArray "json list"
  | JObject "(pystr \<times> json) list"

text \<open>\<open>d[k] = v\<close> and \<open>dict(pairs)\<close>: a repeated key keeps its place and takes the last value.\<close>

fun dict_set :: "(pystr \<times> json) list \<Rightarrow> pystr \<Rightarrow> json \<Rightarrow> (pystr \<times> json) list" where
  "dict_set [] k v = [(k, v)]"
| "dict_set ((k', v') # d) k v = (if k' = k then (k, v) # d else (k', v') # dict_set d k v)"

definition dict_of_pairs :: "(pystr \<times> json) list \<Rightarrow> (pystr \<times> json) list" where
  "dict_of_pairs pairs = foldl (\<lambda>d (k, v). dict_set d k v) [] pairs"

section \<open>The JSON decoder\<close>

text \<open>
  \<open>json.loads\<close> is the decoder of the Python standard library. The handler takes it as a
  parameter, a function from the text to either the text of the \<open>JSONDecodeError\<close>
  (\<open>Inl\<close>) or the value (\<open>Inr\<close>); \<open>json_loads\<close> below is a model of it, following the
  decoder's own functions (\<open>scanstring\<close>, the number pattern, \<open>scan_once\<close>,
  \<open>JSONArray\<close>, \<open>JSONObject\<close>, \<open>decode\<close>). Each function reads at the start of its
  argument and returns how many characters it has read. The limits of the runtime
  (recursion depth, digits of an integer) are not modelled. The wording of the library's
  messages is not reproduced either: a value that cannot be read is reported as
  \<open>Expecting value\<close> wherever the decoder stops, and no position is given.
\<close>

definition json_ws :: "nat \<Rightarrow> bool" where
  "json_ws c \<longleftrightarrow> c = 32 \<or> c = 9 \<or> c = 10 \<or> c = 13"

definition skip_ws :: "pystr \<Rightarrow> pystr" where
  "skip_ws s = dropWhile json_ws s"

definition starts_with :: "pystr \<Rightarrow> pystr \<Rightarrow> bool" where
  "starts_with p s \<longleftrightarrow> take (length p) s = p"

definition is_digit :: "nat \<Rightarrow> bool" where
  "is_digit c \<longleftrightarrow> 48 \<le> c \<and> c \<le> 57"

definition hexval :: "nat \<Rightarrow> nat option" where
  "hexval c =
     (if 48 \<le> c \<and> c \<le> 57 then Some (c - 48)
      else if 97 \<le> c \<and> c \<le> 102 then Some (c - 87)
      else if 65 \<le> c \<and> c \<le> 70 then Some (c - 55)
      else None)"

fun hex4 :: "pystr \<Rightarrow> nat option" where
  "hex4 (a # b # c # d # _) =
     (case (hexval a, hexval b, hexval c, hexval d) of
        (Some w, Some x, Some y, Some z) \<Rightarrow> Some (((w * 16 + x) * 16 + y) * 16 + z)
      | _ \<Rightarrow> None)"
| "hex4 _ = None"

definition escape_char :: "nat \<Rightarrow> nat option" where
  "escape_char e =
     (if e = 34 \<or> e = 92 \<or> e = 47 then Some e
      else if e = 98 then Some 8
      else if e = 102 then Some 12
      else if e = 110 then Some 10
      else if e = 114 then Some 13
      else if e = 116 then Some 9
      else None)"

text \<open>
  The body of a string up to its closing quote, in strict mode: a control character
  or an unknown escape is an error, and so is the end of the text. Each character is
  kept with a mark telling whether a \<open>\u\<close> escape wrote it, for the surrogate pairs.
\<close>

fun scan_chunks :: "pystr \<Rightarrow> (nat \<times> bool) list \<Rightarrow> ((nat \<times> bool) list \<times> pystr) option" where
  "scan_chunks [] acc = None"
| "scan_chunks (c # cs) acc =
     (if c = 34 then Some (rev acc, cs)
      else if c = 92 then
        (case cs of
           [] \<Rightarrow> None
         | e # es \<Rightarrow>
             if e = 117 then
               (case hex4 es of
                  None \<Rightarrow> None
                | Some n \<Rightarrow> scan_chunks (drop 4 es) ((n, True) # acc))
             else
               (case escape_char e of
                  None \<Rightarrow> None
                | Some x \<Rightarrow> scan_chunks es ((x, False) # acc)))
      else if c < 32 then None
      else scan_chunks cs ((c, False) # acc))"

fun join_surrogates :: "(nat \<times> bool) list \<Rightarrow> pystr" where
  "join_surrogates ((h, True) # (l, True) # rest) =
     (if 0xD800 \<le> h \<and> h \<le> 0xDBFF \<and> 0xDC00 \<le> l \<and> l \<le> 0xDFFF
      then (0x10000 + (h - 0xD800) * 1024 + (l - 0xDC00)) # join_surrogates rest
      else h # join_surrogates ((l, True) # rest))"
| "join_surrogates ((c, _) # rest) = c # join_surrogates rest"
| "join_surrogates [] = []"

definition scanstring :: "pystr \<Rightarrow> (pystr \<times> nat) option" where
  "scanstring s =
     (case scan_chunks s [] of
        None \<Rightarrow> None
      | Some (chunks, rest) \<Rightarrow> Some (join_surrogates chunks, length s - length rest))"

definition int_of_digits :: "pystr \<Rightarrow> int" where
  "int_of_digits ds = foldl (\<lambda>a c. a * 10 + int (c - 48)) 0 ds"

text \<open>
  The number pattern: an optional minus, \<open>0\<close> or a digit from 1 to 9 with more digits,
  then a fraction when a dot and a digit follow, then an exponent when \<open>e\<close> or \<open>E\<close>, an
  optional sign and at least one digit follow.
\<close>

definition match_number :: "pystr \<Rightarrow> (json \<times> nat) option" where
  "match_number s =
     (let neg = (s \<noteq> [] \<and> hd s = 45);
          s1 = (if neg then tl s else s);
          ip = (case s1 of
                  [] \<Rightarrow> []
                | d # _ \<Rightarrow>
                    if d = 48 then [48]
                    else if 49 \<le> d \<and> d \<le> 57 then takeWhile is_digit s1
                    else [])
      in if ip = [] then None
         else
           (let s2 = drop (length ip) s1;
                fp = (case s2 of
                        dot # d # r \<Rightarrow>
                          if dot = 46 \<and> is_digit d then 46 # takeWhile is_digit (d # r) else []
                      | _ \<Rightarrow> []);
                s3 = drop (length fp) s2;
                ep = (case s3 of
                        [] \<Rightarrow> []
                      | e # r \<Rightarrow>
                          if e = 101 \<or> e = 69 then
                            (let sg = (case r of
                                         [] \<Rightarrow> []
                                       | x # _ \<Rightarrow> if x = 43 \<or> x = 45 then [x] else []);
                                 ds = takeWhile is_digit (drop (length sg) r)
                             in if ds = [] then [] else e # sg @ ds)
                          else []);
                n = (if neg then 1 else 0) + length ip + length fp + length ep
            in if fp = [] \<and> ep = []
               then Some (JInt ((if neg then - 1 else 1) * int_of_digits ip), n)
               else Some (JFloat (take n s), n)))"

text \<open>
  \<open>scan_once\<close> reads one value; \<open>JSONArray\<close> and \<open>JSONObject\<close> read what follows the
  opening bracket or brace, \<open>array_items\<close> and \<open>object_pairs\<close> are their loops, the
  latter starting after the opening quote of a key. The containers return the value
  and the text that remains.
\<close>

function scan_once :: "pystr \<Rightarrow> (json \<times> nat) option"
  and JSONArray :: "pystr \<Rightarrow> (json \<times> pystr) option"
  and array_items :: "pystr \<Rightarrow> json list \<Rightarrow> (json \<times> pystr) option"
  and JSONObject :: "pystr \<Rightarrow> (json \<times> pystr) option"
  and object_pairs :: "pystr \<Rightarrow> (pystr \<times> json) list \<Rightarrow> (json \<times> pystr) option"
where
  "scan_once s =
     (case s of
        [] \<Rightarrow> None
      | c # cs \<Rightarrow>
          if c = 34 then
            (case scanstring cs of
               None \<Rightarrow> None
             | Some (str, n) \<Rightarrow> Some (JString str, n + 1))
          else if c = 123 then
            (case JSONObject cs of
               None \<Rightarrow> None
             | Some (v, rest) \<Rightarrow> Some (v, length s - length rest))
          else if c = 91 then
            (case JSONArray cs of
               None \<Rightarrow> None
             | Some (v, rest) \<Rightarrow> Some (v, length s - length rest))
          else if starts_with (ustr ''null'') s then Some (JNull, 4)
          else if starts_with (ustr ''true'') s then Some (JBool True, 4)
          else if starts_with (ustr ''false'') s then Some (JBool False, 5)
          else
            (case match_number s of
               Some r \<Rightarrow> Some r
             | None \<Rightarrow>
                 if starts_with (ustr ''NaN'') s then Some (JFloat (ustr ''NaN''), 3)
                 else if starts_with (ustr ''Infinity'') s then Some (JFloat (ustr ''Infinity''), 8)
                 else if starts_with (ustr ''-Infinity'') s then Some (JFloat (ustr ''-Infinity''), 9)
                 else None))"
| "JSONArray s =
     (case skip_ws s of
        [] \<Rightarrow> None
      | c # rest \<Rightarrow> if c = 93 then Some (JArray [], rest) else array_items (c # rest) [])"
| "array_items s acc =
     (case scan_once s of
        None \<Rightarrow> None
      | Some (v, n) \<Rightarrow>
          (case skip_ws (drop n s) of
             [] \<Rightarrow> None
           | d # rest \<Rightarrow>
               if d = 93 then Some (JArray (acc @ [v]), rest)
               else if d = 44 then array_items (skip_ws rest) (acc @ [v])
               else None))"
| "JSONObject s =
     (case skip_ws s of
        [] \<Rightarrow> None
      | c # rest \<Rightarrow>
          if c = 125 then Some (JObject [], rest)
          else if c = 34 then object_pairs rest []
          else None)"
| "object_pairs s pairs =
     (case scanstring s of
        None \<Rightarrow> None
      | Some (key, n) \<Rightarrow>
          (case skip_ws (drop n s) of
             [] \<Rightarrow> None
           | c # r1 \<Rightarrow>
               if c \<noteq> 58 then None
               else
                 (case scan_once (skip_ws r1) of
                    None \<Rightarrow> None
                  | Some (v, m) \<Rightarrow>
                      (case skip_ws (drop m (skip_ws r1)) of
                         [] \<Rightarrow> None
                       | d # r3 \<Rightarrow>
                           if d = 125 then Some (JObject (dict_of_pairs (pairs @ [(key, v)])), r3)
                           else if d = 44 then
                             (case skip_ws r3 of
                                [] \<Rightarrow> None
                              | q # r4 \<Rightarrow>
                                  if q = 34 then object_pairs r4 (pairs @ [(key, v)]) else None)
                           else None))))"
  by pat_completeness auto

termination
proof -
  have le: "length (skip_ws s) \<le> length s" for s
    by (simp add: skip_ws_def length_dropWhile_le)
  have l0: "length xs < length s" if "skip_ws s = x # xs" for s x xs
    using le [of s] that by simp
  have l1: "length xs < length s" if "skip_ws (drop n s) = x # xs" for s n x xs
    using l0 [OF that] by simp
  have l2: "length xs < length s" if "skip_ws (drop n (skip_ws s)) = x # xs" for s n x xs
    using l1 [OF that] le [of s] by simp
  show ?thesis
    apply (relation "measure (\<lambda>x. case x of
        Inl (Inl s) \<Rightarrow> 3 * length s
      | Inl (Inr s) \<Rightarrow> 3 * length s + 2
      | Inr (Inl (s, acc)) \<Rightarrow> 3 * length s + 1
      | Inr (Inr (Inl s)) \<Rightarrow> 3 * length s + 2
      | Inr (Inr (Inr (s, pairs))) \<Rightarrow> 3 * length s + 2)")
            apply simp_all
    subgoal for s x21 x22
      using l0 [of s x21 x22] by simp
    subgoal for s x2 x y x21 x22
      using l1 [of y s 44 x22] le [of x22] by simp
    subgoal for s x21 x22
      using l0 [of s 34 x22] by simp
    subgoal for s x2 x y x21 x22
      using l1 [of y s 58 x22] le [of x22] by simp
    subgoal for s x2 x y x21 x22 x2a xa ya x21a x22a x21b x22b
      using l1 [of y s 58 x22] l2 [of ya x22 44 x22a] l0 [of x22a 34 x22b] by simp
    done
qed

text \<open>
  \<open>json.loads\<close> on a \<open>str\<close>: a leading byte order mark is refused, then \<open>decode\<close>
  skips the whitespace, reads one value and accepts only whitespace after it.
\<close>

definition json_loads :: "pystr \<Rightarrow> pystr + json" where
  "json_loads s =
     (if s \<noteq> [] \<and> hd s = 0xFEFF then Inl (ustr ''Unexpected UTF-8 BOM (decode using utf-8-sig)'')
      else
        (case scan_once (skip_ws s) of
           None \<Rightarrow> Inl (ustr ''Expecting value'')
         | Some (obj, n) \<Rightarrow>
             if skip_ws (drop n (skip_ws s)) = [] then Inr obj else Inl (ustr ''Extra data'')))"

section \<open>The pattern search\<close>

text \<open>
  \<open>re.search(r"```json\s*(.*?)\s*```", text, re.DOTALL | re.IGNORECASE)\<close> and its group 1,
  written as the backtracking search runs: every start position from the left;
  there the three backticks and \<open>json\<close> without regard to case; then \<open>\s*\<close>, greedy, the
  longest run first; then \<open>(.*?)\<close>, lazy, the shortest text first, any character
  (\<open>DOTALL\<close>); then \<open>\s*\<close> and the three backticks. In a \<open>str\<close> pattern the letter
  \<open>s\<close> also matches U+017F without regard to case.
\<close>

definition fence :: pystr where
  "fence = [96, 96, 96]"

fun opens :: "pystr \<Rightarrow> bool" where
  "opens (b1 # b2 # b3 # cj # cs # co # cn # _) \<longleftrightarrow>
     b1 = 96 \<and> b2 = 96 \<and> b3 = 96 \<and> (cj = 106 \<or> cj = 74) \<and>
     (cs = 115 \<or> cs = 83 \<or> cs = 0x17F) \<and> (co = 111 \<or> co = 79) \<and> (cn = 110 \<or> cn = 78)"
| "opens _ \<longleftrightarrow> False"

fun close_ws :: "pystr \<Rightarrow> bool" where
  "close_ws [] \<longleftrightarrow> False"
| "close_ws (c # cs) \<longleftrightarrow> (isspace c \<and> close_ws cs) \<or> starts_with fence (c # cs)"

fun lazy_group :: "pystr \<Rightarrow> pystr \<Rightarrow> pystr option" where
  "lazy_group acc [] = None"
| "lazy_group acc (c # cs) = (if close_ws (c # cs) then Some (rev acc) else lazy_group (c # acc) cs)"

fun open_ws :: "pystr \<Rightarrow> pystr option" where
  "open_ws [] = None"
| "open_ws (c # cs) =
     (if isspace c then
        (case open_ws cs of
           Some g \<Rightarrow> Some g
         | None \<Rightarrow> lazy_group [] (c # cs))
      else lazy_group [] (c # cs))"

definition match_here :: "pystr \<Rightarrow> pystr option" where
  "match_here s = (if opens s then open_ws (drop 7 s) else None)"

fun re_search :: "pystr \<Rightarrow> pystr option" where
  "re_search [] = None"
| "re_search (c # cs) =
     (case match_here (c # cs) of
        Some g \<Rightarrow> Some g
      | None \<Rightarrow> re_search cs)"

text \<open>
  The same search in the words of the specification: the first opening marker, then
  the first closing marker after it, and between them the content without the
  whitespace at its two ends.
\<close>

fun first_open :: "pystr \<Rightarrow> nat option" where
  "first_open [] = None"
| "first_open (c # cs) =
     (if opens (c # cs) then Some 0 else map_option Suc (first_open cs))"

fun first_fence :: "pystr \<Rightarrow> nat option" where
  "first_fence [] = None"
| "first_fence (c # cs) =
     (if starts_with fence (c # cs) then Some 0 else map_option Suc (first_fence cs))"

definition fenced_block_spec :: "pystr \<Rightarrow> pystr option" where
  "fenced_block_spec t =
     (case first_open t of
        None \<Rightarrow> None
      | Some i \<Rightarrow>
          (case first_fence (drop (i + 7) t) of
             None \<Rightarrow> None
           | Some j \<Rightarrow> Some (str_strip (take j (drop (i + 7) t)))))"

section \<open>The recovery of the nested JSON\<close>

text \<open>
  The exceptions the body of \<open>transform_text_to_json\<close> can raise, each with the text
  \<open>str(e)\<close>: \<open>JSONDecodeError\<close> from the decoder, \<open>ValueError\<close> from the handler's own
  checks, and \<open>TypeError\<close> from \<open>re.search\<close> when the value under \<open>text\<close> is not a
  string (the wording is that of CPython 3.11 and later).
\<close>

datatype py_exception = JSONDecodeError pystr | ValueError pystr | TypeError pystr

definition not_a_list :: pystr where
  "not_a_list =
     ustr (''Input 'raw_text' n'' @ [CHR 0xE3] @ ''o '' @ [CHR 0xE9] @ '' uma lista JSON v'' @
           [CHR 0xE1] @ ''lida ou est'' @ [CHR 0xE1] @ '' vazia.'')"

definition no_text_key :: pystr where
  "no_text_key =
     ustr (''O primeiro item da lista JSON n'' @ [CHR 0xE3] @ ''o cont'' @ [CHR 0xE9] @
           ''m a chave 'text'.'')"

definition no_block :: pystr where
  "no_block =
     ustr (''N'' @ [CHR 0xE3] @ ''o foi poss'' @ [CHR 0xED] @
           ''vel encontrar o bloco ```json ... ``` dentro do campo 'text'.'')"

definition type_name :: "json \<Rightarrow> pystr" where
  "type_name v =
     (case v of
        JNull \<Rightarrow> ustr ''NoneType''
      | JBool _ \<Rightarrow> ustr ''bool''
      | JInt _ \<Rightarrow> ustr ''int''
      | JFloat _ \<Rightarrow> ustr ''float''
      | JString _ \<Rightarrow> ustr ''str''
      | JArray _ \<Rightarrow> ustr ''list''
      | JObject _ \<Rightarrow> ustr ''dict'')"

text \<open>The body of the \<open>try\<close> block, with the decoder as \<open>loads\<close>.\<close>

definition recover :: "(pystr \<Rightarrow> pystr + json) \<Rightarrow> pystr \<Rightarrow> py_exception + json" where
  "recover loads raw_text =
     (case loads raw_text of
        Inl e \<Rightarrow> Inl (JSONDecodeError e)
      | Inr data_list \<Rightarrow>
          (case data_list of
             JArray (first_item # _) \<Rightarrow>
               (case first_item of
                  JObject d \<Rightarrow>
                    (case map_of d (ustr ''text'') of
                       None \<Rightarrow> Inl (ValueError no_text_key)
                     | Some text_with_markdown \<Rightarrow>
                         (case text_with_markdown of
                            JString t \<Rightarrow>
                              (case re_search t of
                                 None \<Rightarrow> Inl (ValueError no_block)
                               | Some json_string \<Rightarrow>
                                   (case loads json_string of
                                      Inl e \<Rightarrow> Inl (JSONDecodeError e)
                                    | Inr final_json_data \<Rightarrow> Inr final_json_data))
                          | v \<Rightarrow>
                              Inl (TypeError (ustr ''expected string or bytes-like object, got ''
                                               @ [39] @ type_name v @ [39]))))
                | _ \<Rightarrow> Inl (ValueError no_text_key))
           | _ \<Rightarrow> Inl (ValueError not_a_list)))"

text \<open>The three responses of the \<open>except\<close> clauses.\<close>

definition decode_error :: "pystr \<Rightarrow> http_exception" where
  "decode_error e = HTTPException 400 (ustr ''Erro ao decodificar JSON: '' @ e)"

definition structure_error :: "pystr \<Rightarrow> http_exception" where
  "structure_error e = HTTPException 400 (ustr ''Erro na estrutura do input: '' @ e)"

definition unexpected_error :: "pystr \<Rightarrow> http_exception" where
  "unexpected_error e = HTTPException 500 (ustr ''Erro inesperado no processamento: '' @ e)"

text \<open>
  \<open>transform_text_to_json\<close>: the body, then the \<open>except\<close> clauses in the order of the
  source (\<open>JSONDecodeError\<close> is a \<open>ValueError\<close>, and is caught first).
\<close>

definition transform_text_to_json :: "(pystr \<Rightarrow> pystr + json) \<Rightarrow> pystr \<Rightarrow> http_exception + json" where
  "transform_text_to_json loads raw_text =
     (case recover loads raw_text of
        Inr final_json_data \<Rightarrow> Inr final_json_data
      | Inl (JSONDecodeError e) \<Rightarrow> Inl (decode_error e)
      | Inl (ValueError e) \<Rightarrow> Inl (structure_error e)
      | Inl (TypeError e) \<Rightarrow> Inl (unexpected_error e))"

text \<open>
  The route is declared with \<open>response_model=Dict[str, Any]\<close>: the framework validates
  what the handler returns against it before it writes the response. A \<open>dict\<close> passes
  as it is; any other value fails the validation, which the framework answers with
  status 500 (FastAPI with pydantic 2, where a list is not taken for a mapping).
  \<open>transform_route\<close> is the handler followed by this validation; how the validated
  value is then written as bytes is not modelled.
\<close>

definition response_validation_error :: http_exception where
  "response_validation_error = HTTPException 500 (ustr ''Internal Server Error'')"

definition response_model_dict :: "json \<Rightarrow> http_exception + json" where
  "response_model_dict v =
     (case v of
        JObject d \<Rightarrow> Inr (JObject d)
      | _ \<Rightarrow> Inl response_validation_error)"

definition transform_route :: "(pystr \<Rightarrow> pystr + json) \<Rightarrow> pystr \<Rightarrow> http_exception + json" where
  "transform_route loads raw_text =
     (case transform_text_to_json loads raw_text of
        Inl e \<Rightarrow> Inl e
      | Inr v \<Rightarrow> response_model_dict v)"

section \<open>Example inputs\<close>

text \<open>
  The happy-path input of the specification. Its characters are
  \<^verbatim>\<open>[{"text": "prefix ```json\n{\"a\":1}\n``` suffix"}]\<close>, where each backslash (code 92)
  is a character of the text and starts an escape of the outer JSON string.
\<close>

definition happy_raw_text :: pystr where
  "happy_raw_text =
     ustr ''[{\"text\": \"prefix ```json'' @ [92] @ ustr ''n{'' @ [92] @ ustr ''\"a'' @ [92] @
     ustr ''\":1}'' @ [92] @ ustr ''n``` suffix\"}]''"

text \<open>
  Two fenced blocks, the first with invalid JSON, the second with valid JSON:
  \<^verbatim>\<open>[{"text": "```json {oops ``` and ```json {\"ok\": true} ```"}]\<close>.
\<close>

definition two_blocks_raw_text :: pystr where
  "two_blocks_raw_text =
     ustr ''[{\"text\": \"```json {oops ``` and ```json {'' @ [92] @ ustr ''\"ok'' @ [92] @
     ustr ''\": true} ```\"}]''"

text \<open>An envelope whose \<open>text\<close> is a number: \<^verbatim>\<open>[{"text": 5}]\<close>.\<close>

definition number_text_raw_text :: pystr where
  "number_text_raw_text = ustr ''[{\"text\": 5}]''"

text \<open>
  A fenced block that holds a number, \<^verbatim>\<open>[{"text": "```json 5 ```"}]\<close>, and one that
  holds an array, \<^verbatim>\<open>[{"text": "```json [1, 2] ```"}]\<close>.
\<close>

definition scalar_block_raw_text :: pystr where
  "scalar_block_raw_text = ustr ''[{\"text\": \"```json 5 ```\"}]''"

definition array_block_raw_text :: pystr where
  "array_block_raw_text = ustr ''[{\"text\": \"```json [1, 2] ```\"}]''"



section \<open>File-name extension\<close>

lemma str_split_not_Nil: "str_split sep s \<noteq> []"
  by (induction s) auto

lemma char_lower_dot: "char_lower c = CHR ''.'' \<longleftrightarrow> c = CHR ''.''"
proof
  assume h: "char_lower c = CHR ''.''"
  show "c = CHR ''.''"
  proof (rule ccontr)
    assume n: "c \<noteq> CHR ''.''"
    let ?n = "of_char c :: nat"
    from h n have r: "(65 \<le> ?n \<and> ?n \<le> 90) \<or> (192 \<le> ?n \<and> ?n \<le> 222 \<and> ?n \<noteq> 215)"
      and e: "char_of (?n + 32) = CHR ''.''"
      by (auto simp: char_lower_def Let_def split: if_splits)
    from e have "(of_char (char_of (?n + 32)) :: nat) = of_char CHR ''.''"
      by simp
    then have "(?n + 32) mod 256 = 46"
      by simp
    with r show False
      by auto
  qed
next
  assume "c = CHR ''.''"
  then show "char_lower c = CHR ''.''"
    by (simp add: char_lower_def)
qed

lemma str_split_lower:
  "str_split CHR ''.'' (str_lower s) = map str_lower (str_split CHR ''.'' s)"
proof (induction s)
  case Nil
  show ?case by (simp add: str_lower_def)
next
  case (Cons c s)
  have ne: "str_split CHR ''.'' s \<noteq> []"
    by (rule str_split_not_Nil)
  show ?case
  proof (cases "c = CHR ''.''")
    case True
    then have "char_lower c = CHR ''.''"
      by (simp add: char_lower_dot)
    with True Cons show ?thesis
      by (simp add: str_lower_def)
  next
    case False
    then have "char_lower c \<noteq> CHR ''.''"
      by (simp add: char_lower_dot)
    with False Cons ne show ?thesis
      by (cases "str_split CHR ''.'' s") (auto simp: str_lower_def)
  qed
qed

lemma file_extension_eq:
  "last (str_split CHR ''.'' (str_lower s)) = str_lower (last (str_split CHR ''.'' s))"
  by (simp add: str_split_lower last_map str_split_not_Nil)

lemma str_split_no_sep: "sep \<notin> set s \<Longrightarrow> str_split sep s = [s]"
  by (induction s) auto

lemma extract_document_cases:
  "extract_document P Q t f b =
     (let ext = str_lower (last (str_split CHR ''.'' f)) in
      if ext = ''pdf'' then (if b = [] then Inl empty_file else extract_pdf P t b f)
      else if ext = ''pptx'' then (if b = [] then Inl empty_file else extract_pptx Q t b f)
      else Inl unsupported_type)"
  by (simp add: extract_document_def file_extension_eq Let_def)


section \<open>Claims on the extract route\<close>

text \<open>
  Claim C9. The extension is tested without regard to case on what follows the last
  dot of the file name. When the last dot-separated segment, lowercased, is \<open>pdf\<close>
  the request goes to \<open>extract_pdf\<close>, when it is \<open>pptx\<close> it goes to \<open>extract_pptx\<close>
  (an empty upload is stopped in between, see C8), and with any other segment the
  request is refused with status 400 whatever the content and the libraries are, so
  before anything is parsed. The source lowercases the whole name and then takes the
  last segment; \<open>file_extension_eq\<close> shows that this is the lowercased last segment.
\<close>

theorem extension_check_dispatch:
  "(str_lower (last (str_split CHR ''.'' f)) = ''pdf'' \<longrightarrow>
      extract_document P Q t f b = (if b = [] then Inl empty_file else extract_pdf P t b f)) \<and>
   (str_lower (last (str_split CHR ''.'' f)) = ''pptx'' \<longrightarrow>
      extract_document P Q t f b = (if b = [] then Inl empty_file else extract_pptx Q t b f)) \<and>
   (str_lower (last (str_split CHR ''.'' f)) \<notin> {''pdf'', ''pptx''} \<longrightarrow>
      extract_document P Q t f b = Inl unsupported_type \<and> status_code unsupported_type = 400)"
  by (simp add: extract_document_cases unsupported_type_def)

lemma ext_Report: "str_lower (last (str_split CHR ''.'' ''Q3.Report.PDF'')) = ''pdf''"
  by code_simp

lemma ext_deck: "str_lower (last (str_split CHR ''.'' ''deck.PpTx'')) = ''pptx''"
  by code_simp

lemma ext_notes: "str_lower (last (str_split CHR ''.'' ''notes.txt'')) \<notin> {''pdf'', ''pptx''}"
  by code_simp

theorem extension_check_dispatch_witness:
  "extract_document (\<lambda>_. Inl []) (\<lambda>_. Inl []) [] ''Q3.Report.PDF'' [1] =
     extract_pdf (\<lambda>_. Inl []) [] [1] ''Q3.Report.PDF'' \<and>
   extract_document (\<lambda>_. Inl []) (\<lambda>_. Inl []) [] ''deck.PpTx'' [1] =
     extract_pptx (\<lambda>_. Inl []) [] [1] ''deck.PpTx'' \<and>
   extract_document (\<lambda>_. Inl []) (\<lambda>_. Inl []) [] ''notes.txt'' [1] = Inl unsupported_type"
  using extension_check_dispatch [THEN conjunct1, rule_format, OF ext_Report, of _ _ _ "[1]"]
        extension_check_dispatch [THEN conjunct2, THEN conjunct1, rule_format, OF ext_deck, of _ _ _ "[1]"]
        extension_check_dispatch [THEN conjunct2, THEN conjunct2, rule_format, OF ext_notes]
  by simp

text \<open>
  Claim C8. An upload of length zero whose file name passes the extension test is
  refused with the status 400 error \<open>Arquivo vazio\<close>. On empty content the route
  answers one of its two own errors for every file name, and its answer is the same
  for any two pairs of libraries and clocks: neither extractor takes part in it.
\<close>

theorem empty_upload_rejected:
  "(str_lower (last (str_split CHR ''.'' f)) \<in> {''pdf'', ''pptx''} \<longrightarrow>
      extract_document P Q t f [] = Inl empty_file) \<and>
   status_code empty_file = 400 \<and>
   (extract_document P Q t f [] = Inl empty_file \<or>
    extract_document P Q t f [] = Inl unsupported_type) \<and>
   extract_document P Q t f [] = extract_document P' Q' t' f []"
  by (auto simp: extract_document_cases empty_file_def Let_def)

lemma ext_Report_ok: "str_lower (last (str_split CHR ''.'' ''Q3.Report.PDF'')) \<in> {''pdf'', ''pptx''}"
  and ext_deck_ok: "str_lower (last (str_split CHR ''.'' ''deck.PpTx'')) \<in> {''pdf'', ''pptx''}"
  by (simp_all only: ext_Report ext_deck) simp_all

theorem empty_upload_rejected_witness:
  "extract_document (\<lambda>_. Inr \<lparr>pages = [], pdf_info = None\<rparr>) (\<lambda>_. Inl []) [] ''Q3.Report.PDF'' [] =
     Inl empty_file \<and>
   extract_document (\<lambda>_. Inl []) (\<lambda>_. Inl []) [] ''deck.PpTx'' [] = Inl empty_file"
  using empty_upload_rejected [THEN conjunct1, rule_format, OF ext_Report_ok]
        empty_upload_rejected [THEN conjunct1, rule_format, OF ext_deck_ok]
  by simp

text \<open>
  Claim C10. A file name without any dot is its own last segment: when the whole name,
  lowercased, is \<open>pdf\<close> or \<open>pptx\<close> the extension test accepts it and the request is
  dispatched like any other (for instance the file name \<open>pdf\<close>). The extension test
  comes before the test for an empty upload: an empty upload with an unsupported
  extension gets the unsupported-type error, which differs from the empty-file error.
\<close>

theorem dotless_name_and_check_order:
  "(CHR ''.'' \<notin> set f \<and> str_lower f = ''pdf'' \<longrightarrow>
      extract_document P Q t f b = (if b = [] then Inl empty_file else extract_pdf P t b f)) \<and>
   (CHR ''.'' \<notin> set f \<and> str_lower f = ''pptx'' \<longrightarrow>
      extract_document P Q t f b = (if b = [] then Inl empty_file else extract_pptx Q t b f)) \<and>
   (str_lower (last (str_split CHR ''.'' f)) \<notin> {''pdf'', ''pptx''} \<longrightarrow>
      extract_document P Q t f [] = Inl unsupported_type \<and> unsupported_type \<noteq> empty_file)"
proof -
  have "unsupported_type \<noteq> empty_file"
    by (simp add: unsupported_type_def empty_file_def ustr_def)
  then show ?thesis
    by (auto simp: extract_document_cases str_split_no_sep)
qed

lemma dotless_pdf: "CHR ''.'' \<notin> set ''pdf'' \<and> str_lower ''pdf'' = ''pdf''"
  by code_simp

lemma dotless_PPTX: "CHR ''.'' \<notin> set ''PPTX'' \<and> str_lower ''PPTX'' = ''pptx''"
  by code_simp

theorem dotless_name_and_check_order_witness:
  "extract_document (\<lambda>_. Inl []) (\<lambda>_. Inl []) [] ''pdf'' [1] = extract_pdf (\<lambda>_. Inl []) [] [1] ''pdf'' \<and>
   extract_document (\<lambda>_. Inl []) (\<lambda>_. Inl []) [] ''PPTX'' [1] = extract_pptx (\<lambda>_. Inl []) [] [1] ''PPTX'' \<and>
   extract_document (\<lambda>_. Inl []) (\<lambda>_. Inl []) [] ''notes.txt'' [] = Inl unsupported_type \<and>
   extract_document (\<lambda>_. Inl []) (\<lambda>_. Inl []) [] ''notes.txt'' [] \<noteq> Inl empty_file"
  using dotless_name_and_check_order [THEN conjunct1, rule_format, OF dotless_pdf, of _ _ _ "[1]"]
        dotless_name_and_check_order [THEN conjunct2, THEN conjunct1, rule_format, OF dotless_PPTX, of _ _ _ "[1]"]
        dotless_name_and_check_order [THEN conjunct2, THEN conjunct2, rule_format, OF ext_notes]
  by simp


section \<open>The content hash\<close>

lemma length_sha256_round: "length (sha256_round s kw) = length s"
  by (cases "(s, kw)" rule: sha256_round.cases) (simp_all add: Let_def)

lemma length_foldl_round: "length (foldl sha256_round s kws) = length s"
  by (induction kws arbitrary: s) (simp_all add: length_sha256_round)

lemma length_compress: "length (compress hs blk) = length hs"
  by (simp add: compress_def length_foldl_round)

lemma length_foldl_compress:
  "length (foldl (\<lambda>h i. compress h (f i)) hs is) = length hs"
  by (induction "is" arbitrary: hs) (simp_all add: length_compress)

lemma length_concat_const:
  "(\<And>x. length (f x) = k) \<Longrightarrow> length (concat (map f xs)) = k * length xs"
  by (induction xs) simp_all

lemma first_primes_prefix:
  "filter (\<lambda>p. \<forall>d \<in> set [2..<p]. p mod d \<noteq> 0) [2..<20] = [2, 3, 5, 7, 11, 13, 17, 19]"
  by code_simp

lemma length_sha256_h0: "length sha256_h0 = 8"
proof -
  have split: "[2..<312] = [2..<20] @ [20..<312]"
    using upt_add_eq_append [of 2 20 292] by (simp del: upt_rec_numeral upt.simps)
  have "length first_primes =
      length (filter (\<lambda>p. \<forall>d \<in> set [2..<p]. p mod d \<noteq> 0) [2..<20]) +
      length (filter (\<lambda>p. \<forall>d \<in> set [2..<p]. p mod d \<noteq> 0) [20..<312])"
    by (simp only: first_primes_def split filter_append length_append)
  then have "8 \<le> length first_primes"
    by (simp only: first_primes_prefix) simp
  then show ?thesis
    by (simp only: sha256_h0_def length_map length_take)
qed

lemma length_sha256: "length (sha256 m) = 32"
proof -
  have "length (sha256 m) = 4 * length sha256_h0"
    unfolding sha256_def Let_def
    by (subst length_concat_const [where k = 4]) (simp_all add: length_foldl_compress)
  then show ?thesis
    by (simp add: length_sha256_h0)
qed

lemma length_hexdigest: "length (hexdigest bs) = 2 * length bs"
  unfolding hexdigest_def by (rule length_concat_const) simp

lemma hexchar_range: "n < 16 \<Longrightarrow> hexchar n \<in> set (ustr ''0123456789abcdef'')"
proof -
  assume "n < 16"
  then have "n \<in> {0, 1, 2, 3, 4, 5, 6, 7, 8, 9, 10, 11, 12, 13, 14, 15}"
    by (simp, arith)
  then show ?thesis
    by (auto simp: hexchar_def ustr_def)
qed

lemma byte_nibbles: "unat (b :: 8 word) div 16 < 16" "unat b mod 16 < 16"
proof -
  have "unat b < 256"
    using unsigned_less [of b, where 'a = nat] by simp
  then show "unat b div 16 < 16"
    by (simp add: less_mult_imp_div_less)
  show "unat b mod 16 < 16"
    by simp
qed

lemma hexdigest_chars: "c \<in> set (hexdigest bs) \<Longrightarrow> c \<in> set (ustr ''0123456789abcdef'')"
  unfolding hexdigest_def by (auto intro: hexchar_range byte_nibbles)

lemma extract_pdf_hash:
  "extract_pdf P t b f = Inr r \<Longrightarrow> file_hash r = calculate_file_hash b"
  by (auto simp: extract_pdf_def split: sum.splits)

lemma extract_pptx_hash:
  "extract_pptx Q t b f = Inr r \<Longrightarrow> file_hash r = calculate_file_hash b"
  by (auto simp: extract_pptx_def split: sum.splits prod.splits)

lemma extract_document_hash:
  "extract_document P Q t f b = Inr r \<Longrightarrow> file_hash r = calculate_file_hash b"
  by (auto simp: extract_document_def Let_def extract_pdf_hash extract_pptx_hash split: if_splits)

text \<open>
  Claim C6. \<open>calculate_file_hash\<close> is a function of the bytes alone, defined on every
  byte sequence, the empty one included: the SHA-256 digest, 32 bytes, written as 64
  characters out of \<open>0123456789abcdef\<close>. Two extraction requests on the same bytes that
  both succeed carry the same \<open>file_hash\<close>, whatever their file names and times are.
\<close>

theorem file_hash_content_addressed:
  "calculate_file_hash b = hexdigest (sha256 b) \<and>
   length (sha256 b) = 32 \<and>
   length (calculate_file_hash b) = 64 \<and>
   (\<forall>c \<in> set (calculate_file_hash b). c \<in> set (ustr ''0123456789abcdef'')) \<and>
   (extract_document P Q t1 f1 b = Inr r1 \<and> extract_document P Q t2 f2 b = Inr r2 \<longrightarrow>
      file_hash r1 = calculate_file_hash b \<and> file_hash r2 = file_hash r1)"
proof (intro conjI ballI impI)
  show "calculate_file_hash b = hexdigest (sha256 b)"
    by (simp add: calculate_file_hash_def)
  show "length (sha256 b) = 32"
    by (rule length_sha256)
  show "length (calculate_file_hash b) = 64"
    by (simp add: calculate_file_hash_def length_hexdigest length_sha256)
  show "c \<in> set (ustr ''0123456789abcdef'')" if "c \<in> set (calculate_file_hash b)" for c
    using that unfolding calculate_file_hash_def by (rule hexdigest_chars)
  assume h: "extract_document P Q t1 f1 b = Inr r1 \<and> extract_document P Q t2 f2 b = Inr r2"
  from h [THEN conjunct1] have h1: "file_hash r1 = calculate_file_hash b"
    by (rule extract_document_hash)
  from h [THEN conjunct2] have h2: "file_hash r2 = calculate_file_hash b"
    by (rule extract_document_hash)
  from h1 show "file_hash r1 = calculate_file_hash b" .
  from h1 h2 show "file_hash r2 = file_hash r1"
    by simp
qed

section \<open>The PDF extractor\<close>

lemma str_strip_Nil: "str_strip [] = []"
  by (simp add: str_strip_def)

text \<open>
  Claim C7. When the PDF library parses the bytes and the document has no page,
  \<open>extract_pdf\<close> succeeds with \<open>num_pages = 0\<close> and an empty \<open>text_content\<close>.
\<close>

theorem pdf_zero_pages:
  "PdfReader b = Inr rd \<and> pages rd = [] \<longrightarrow>
     (\<exists>r m. extract_pdf PdfReader t b f = Inr r \<and> metadata r = PdfMetadata m \<and>
            num_pages m = 0 \<and> text_content r = [])"
  by (simp add: extract_pdf_def str_strip_Nil)

theorem pdf_zero_pages_witness:
  "\<exists>r m. extract_pdf (\<lambda>_. Inr \<lparr>pages = [], pdf_info = None\<rparr>) [] [37, 80, 68, 70] ''empty.pdf'' = Inr r \<and>
         metadata r = PdfMetadata m \<and> num_pages m = 0 \<and> text_content r = []"
  using pdf_zero_pages [of "\<lambda>_. Inr \<lparr>pages = [], pdf_info = None\<rparr>" "[37, 80, 68, 70]"
      "\<lparr>pages = [], pdf_info = None\<rparr>" "[]" "''empty.pdf''"]
  by simp

lemma ext_a_pdf: "str_lower (last (str_split CHR ''.'' ''a.pdf'')) = ''pdf''"
  by code_simp

lemma ext_B_PDF: "str_lower (last (str_split CHR ''.'' ''B.PDF'')) = ''pdf''"
  by code_simp

lemma extract_pdf_no_pages:
  "extract_pdf (\<lambda>_. Inr \<lparr>pages = [], pdf_info = None\<rparr>) t (x # xs) f =
     Inr \<lparr>success = True, filename = f, file_type = ustr ''pdf'', text_content = [],
          metadata = PdfMetadata \<lparr>num_pages = 0, pdf_metadata = []\<rparr>, extracted_at = t,
          file_hash = calculate_file_hash (x # xs)\<rparr>"
  by (simp add: extract_pdf_def str_strip_Nil pdf_metadata_of_def)

theorem file_hash_content_addressed_witness:
  "extract_document (\<lambda>_. Inr \<lparr>pages = [], pdf_info = None\<rparr>) (\<lambda>_. Inl []) [] ''a.pdf'' [37, 80, 68, 70] =
     Inr \<lparr>success = True, filename = ''a.pdf'', file_type = ustr ''pdf'', text_content = [],
          metadata = PdfMetadata \<lparr>num_pages = 0, pdf_metadata = []\<rparr>, extracted_at = [],
          file_hash = calculate_file_hash [37, 80, 68, 70]\<rparr> \<and>
   extract_document (\<lambda>_. Inr \<lparr>pages = [], pdf_info = None\<rparr>) (\<lambda>_. Inl []) [49] ''B.PDF'' [37, 80, 68, 70] =
     Inr \<lparr>success = True, filename = ''B.PDF'', file_type = ustr ''pdf'', text_content = [],
          metadata = PdfMetadata \<lparr>num_pages = 0, pdf_metadata = []\<rparr>, extracted_at = [49],
          file_hash = calculate_file_hash [37, 80, 68, 70]\<rparr> \<and>
   length (calculate_file_hash [37, 80, 68, 70]) = 64"
  (is "?d1 \<and> ?d2 \<and> ?len")
proof -
  have d1: ?d1
    unfolding extract_document_cases Let_def ext_a_pdf by (simp add: extract_pdf_no_pages)
  have d2: ?d2
    unfolding extract_document_cases Let_def ext_B_PDF by (simp add: extract_pdf_no_pages)
  from file_hash_content_addressed [THEN conjunct2, THEN conjunct2, THEN conjunct1]
  have ?len .
  moreover
  from file_hash_content_addressed [THEN conjunct2, THEN conjunct2, THEN conjunct2, THEN conjunct2,
      rule_format, OF conjI [OF d1 d2]]
  have "file_hash \<lparr>success = True, filename = ''a.pdf'', file_type = ustr ''pdf'', text_content = [],
          metadata = PdfMetadata \<lparr>num_pages = 0, pdf_metadata = []\<rparr>, extracted_at = [],
          file_hash = calculate_file_hash [37, 80, 68, 70]\<rparr> = calculate_file_hash [37, 80, 68, 70]"
    by simp
  ultimately show ?thesis
    using d1 d2 by simp
qed

section \<open>Page separators\<close>

lemma extract_pdf_ok:
  "PdfReader b = Inr rd \<Longrightarrow> pdf_pages_text 0 (pages rd) [] = Inr txt \<Longrightarrow>
     \<exists>r. extract_pdf PdfReader t b f = Inr r \<and> text_content r = str_strip txt"
  by (simp add: extract_pdf_def)

lemma two_pages_text:
  "pdf_pages_text 0 [Inr (ustr ''Hello''), Inr (ustr ''World'')] [] =
     Inr ([10] @ ustr (''--- P'' @ [CHR 0xE1] @ ''gina 1 ---'') @ [10] @ ustr ''Hello'' @ [10] @
          ustr (''--- P'' @ [CHR 0xE1] @ ''gina 2 ---'') @ [10] @ ustr ''World'')"
  by (simp add: page_separator_def ustr_def)

lemma two_pages_strip:
  "str_strip ([10] @ ustr (''--- P'' @ [CHR 0xE1] @ ''gina 1 ---'') @ [10] @ ustr ''Hello'' @ [10] @
          ustr (''--- P'' @ [CHR 0xE1] @ ''gina 2 ---'') @ [10] @ ustr ''World'') =
     ustr (''--- P'' @ [CHR 0xE1] @ ''gina 1 ---'') @ [10] @ ustr ''Hello'' @ [10] @
          ustr (''--- P'' @ [CHR 0xE1] @ ''gina 2 ---'') @ [10] @ ustr ''World''"
  by (simp add: str_strip_def isspace_def ustr_def)

lemma two_pages_stripped:
  "str_strip (ustr (''--- P'' @ [CHR 0xE1] @ ''gina 1 ---'') @ [10] @ ustr ''Hello'' @ [10] @
          ustr (''--- P'' @ [CHR 0xE1] @ ''gina 2 ---'') @ [10] @ ustr ''World'') =
     ustr (''--- P'' @ [CHR 0xE1] @ ''gina 1 ---'') @ [10] @ ustr ''Hello'' @ [10] @
          ustr (''--- P'' @ [CHR 0xE1] @ ''gina 2 ---'') @ [10] @ ustr ''World''"
  by (simp add: str_strip_def isspace_def ustr_def)

lemma extract_pdf_two_pages:
  assumes rd: "PdfReader b = Inr rd"
    and pg: "pages rd = [Inr (ustr ''Hello''), Inr (ustr ''World'')]"
  shows "\<exists>r. extract_pdf PdfReader t b f = Inr r \<and> text_content r = ustr (''--- P'' @ [CHR 0xE1] @ ''gina 1 ---'') @ [10] @ ustr ''Hello'' @ [10] @
            ustr (''--- P'' @ [CHR 0xE1] @ ''gina 2 ---'') @ [10] @ ustr ''World''"
proof -
  have "pdf_pages_text 0 (pages rd) [] = Inr ([10] @ ustr (''--- P'' @ [CHR 0xE1] @ ''gina 1 ---'') @ [10] @ ustr ''Hello'' @ [10] @
            ustr (''--- P'' @ [CHR 0xE1] @ ''gina 2 ---'') @ [10] @ ustr ''World'')"
    unfolding pg by (rule two_pages_text)
  from extract_pdf_ok [of PdfReader b rd _ t f, OF rd this]
  show ?thesis
    by (simp only: two_pages_strip)
qed

text \<open>
  Claim C4, as amended. For a PDF that parses into two pages whose extracted texts are
  \<open>Hello\<close> and \<open>World\<close>, \<open>text_content\<close> is exactly the separator of page 1, a line
  break, \<open>Hello\<close>, a line break, the separator of page 2, a line break and \<open>World\<close>,
  where the separator of page \<open>n\<close> is the source's \<open>--- P\<close>, U+00E1, \<open>gina n ---\<close>; trimming
  it again changes nothing. With the separator \<open>--- Page n ---\<close> of
  the claim as stated the equality fails.
\<close>

theorem pdf_two_pages_text:
  "PdfReader b = Inr rd \<and> pages rd = [Inr (ustr ''Hello''), Inr (ustr ''World'')] \<longrightarrow>
     (\<exists>r. extract_pdf PdfReader t b f = Inr r \<and>
          text_content r =
            ustr (''--- P'' @ [CHR 0xE1] @ ''gina 1 ---'') @ [10] @ ustr ''Hello'' @ [10] @
            ustr (''--- P'' @ [CHR 0xE1] @ ''gina 2 ---'') @ [10] @ ustr ''World'' \<and>
          str_strip (text_content r) = text_content r)"
proof (intro impI, elim conjE)
  assume rd: "PdfReader b = Inr rd" and pg: "pages rd = [Inr (ustr ''Hello''), Inr (ustr ''World'')]"
  from extract_pdf_two_pages [of PdfReader b rd t f, OF rd pg]
  obtain r where r: "extract_pdf PdfReader t b f = Inr r"
    and tc: "text_content r = ustr (''--- P'' @ [CHR 0xE1] @ ''gina 1 ---'') @ [10] @ ustr ''Hello'' @ [10] @
            ustr (''--- P'' @ [CHR 0xE1] @ ''gina 2 ---'') @ [10] @ ustr ''World''"
    by blast
  have "str_strip (text_content r) = text_content r"
    unfolding tc by (rule two_pages_stripped)
  with r tc show "\<exists>r. extract_pdf PdfReader t b f = Inr r \<and>
          text_content r =
            ustr (''--- P'' @ [CHR 0xE1] @ ''gina 1 ---'') @ [10] @ ustr ''Hello'' @ [10] @
            ustr (''--- P'' @ [CHR 0xE1] @ ''gina 2 ---'') @ [10] @ ustr ''World'' \<and>
          str_strip (text_content r) = text_content r"
    by blast
qed

lemma two_pages_differ:
  "ustr (''--- P'' @ [CHR 0xE1] @ ''gina 1 ---'') @ [10] @ ustr ''Hello'' @ [10] @
            ustr (''--- P'' @ [CHR 0xE1] @ ''gina 2 ---'') @ [10] @ ustr ''World'' \<noteq>
   ustr ''--- Page 1 ---'' @ [10] @ ustr ''Hello'' @ [10] @ ustr ''--- Page 2 ---'' @ [10] @ ustr ''World''"
  by (simp add: ustr_def)

theorem pdf_two_pages_text_witness:
  "\<exists>r. extract_pdf (\<lambda>_. Inr \<lparr>pages = [Inr (ustr ''Hello''), Inr (ustr ''World'')], pdf_info = None\<rparr>)
          [] [37, 80, 68, 70] ''two.pdf'' = Inr r \<and>
       text_content r =
         ustr (''--- P'' @ [CHR 0xE1] @ ''gina 1 ---'') @ [10] @ ustr ''Hello'' @ [10] @
            ustr (''--- P'' @ [CHR 0xE1] @ ''gina 2 ---'') @ [10] @ ustr ''World''"
  using pdf_two_pages_text [of "\<lambda>_. Inr \<lparr>pages = [Inr (ustr ''Hello''), Inr (ustr ''World'')], pdf_info = None\<rparr>"
      "[37, 80, 68, 70]" "\<lparr>pages = [Inr (ustr ''Hello''), Inr (ustr ''World'')], pdf_info = None\<rparr>"
      "[]" "''two.pdf''"]
  by auto

theorem pdf_two_pages_text_counterexample:
  "\<not> isl (extract_pdf (\<lambda>_. Inr \<lparr>pages = [Inr (ustr ''Hello''), Inr (ustr ''World'')], pdf_info = None\<rparr>)
          [] [37, 80, 68, 70] ''two.pdf'') \<and>
   str_strip (text_content (projr (extract_pdf
       (\<lambda>_. Inr \<lparr>pages = [Inr (ustr ''Hello''), Inr (ustr ''World'')], pdf_info = None\<rparr>)
          [] [37, 80, 68, 70] ''two.pdf''))) \<noteq>
   ustr ''--- Page 1 ---'' @ [10] @ ustr ''Hello'' @ [10] @ ustr ''--- Page 2 ---'' @ [10] @ ustr ''World''"
proof -
  have "pages \<lparr>pages = [Inr (ustr ''Hello''), Inr (ustr ''World'')], pdf_info = None\<rparr> = [Inr (ustr ''Hello''), Inr (ustr ''World'')]"
    by simp
  from extract_pdf_two_pages [of "\<lambda>_. Inr \<lparr>pages = [Inr (ustr ''Hello''), Inr (ustr ''World'')], pdf_info = None\<rparr>" "[37, 80, 68, 70]" "\<lparr>pages = [Inr (ustr ''Hello''), Inr (ustr ''World'')], pdf_info = None\<rparr>", OF refl this, of "[]" "''two.pdf''"]
  obtain r where r: "extract_pdf (\<lambda>_. Inr \<lparr>pages = [Inr (ustr ''Hello''), Inr (ustr ''World'')], pdf_info = None\<rparr>) [] [37, 80, 68, 70] ''two.pdf'' = Inr r"
    and tc: "text_content r = ustr (''--- P'' @ [CHR 0xE1] @ ''gina 1 ---'') @ [10] @ ustr ''Hello'' @ [10] @
            ustr (''--- P'' @ [CHR 0xE1] @ ''gina 2 ---'') @ [10] @ ustr ''World''"
    by blast
  have "str_strip (text_content r) \<noteq>
    ustr ''--- Page 1 ---'' @ [10] @ ustr ''Hello'' @ [10] @ ustr ''--- Page 2 ---'' @ [10] @ ustr ''World''"
    unfolding tc two_pages_stripped by (rule two_pages_differ)
  then show ?thesis
    unfolding r by simp
qed

end
